theory Spec2Isabelle
  imports Complex_Main
begin

section \<open>Numbers and vectors\<close>

text \<open>
  The three variants of the viewer are \<^verbatim>\<open>src/src/App.jsx\<close>, \<^verbatim>\<open>src/unnamed/part_000\<close>
  and \<^verbatim>\<open>src/unnamed/part_001\<close>. Names of \<^verbatim>\<open>App.jsx\<close> are kept as they are; names of
  \<^verbatim>\<open>part_000\<close> carry the suffix \<open>_0\<close> and names of \<^verbatim>\<open>part_001\<close> the suffix \<open>_1\<close>.

  JavaScript numbers are modelled as the real numbers they approximate. Where a claim
  depends on the rounding of IEEE doubles, the operations are modelled a second time with
  rounding (\<open>double\<close> below). The one place where the code can divide by zero is modelled
  explicitly (\<open>js_div\<close> below), since HOL's \<open>x / 0 = 0\<close> is not what JavaScript computes.
\<close>

datatype vec3 = Vector3 (vx: real) (vy: real) (vz: real)

text \<open>
  The operations of \<^verbatim>\<open>THREE.Vector3\<close> that the code calls. The library is a dependency and
  not part of the repository; the definitions follow the library's methods:
  \<^verbatim>\<open>length() { return Math.sqrt(x*x + y*y + z*z) }\<close>,
  \<^verbatim>\<open>multiplyScalar(s) { x *= s; y *= s; z *= s }\<close>,
  \<^verbatim>\<open>divideScalar(s) { return this.multiplyScalar(1 / s) }\<close>,
  \<^verbatim>\<open>normalize() { return this.divideScalar(this.length() || 1) }\<close>,
  \<^verbatim>\<open>sub(v) { x -= v.x; ... }\<close>,
  \<^verbatim>\<open>lerpVectors(v1, v2, alpha) { x = v1.x + (v2.x - v1.x) * alpha; ... }\<close>.
\<close>

definition length_v3 :: "vec3 \<Rightarrow> real" where
  "length_v3 v = sqrt (vx v * vx v + vy v * vy v + vz v * vz v)"

definition multiplyScalar :: "vec3 \<Rightarrow> real \<Rightarrow> vec3" where
  "multiplyScalar v s = Vector3 (vx v * s) (vy v * s) (vz v * s)"

definition divideScalar :: "vec3 \<Rightarrow> real \<Rightarrow> vec3" where
  "divideScalar v s = multiplyScalar v (1 / s)"

text \<open>\<^verbatim>\<open>this.length() || 1\<close>: a length of zero is falsy and is replaced by 1.\<close>

definition normalize_divisor :: "vec3 \<Rightarrow> real" where
  "normalize_divisor v = (if length_v3 v = 0 then 1 else length_v3 v)"

definition normalize_v3 :: "vec3 \<Rightarrow> vec3" where
  "normalize_v3 v = divideScalar v (normalize_divisor v)"

definition sub_v3 :: "vec3 \<Rightarrow> vec3 \<Rightarrow> vec3" where
  "sub_v3 a b = Vector3 (vx a - vx b) (vy a - vy b) (vz a - vz b)"

definition lerpVectors :: "vec3 \<Rightarrow> vec3 \<Rightarrow> real \<Rightarrow> vec3" where
  "lerpVectors v1 v2 alpha =
     Vector3 (vx v1 + (vx v2 - vx v1) * alpha)
             (vy v1 + (vy v2 - vy v1) * alpha)
             (vz v1 + (vz v2 - vz v1) * alpha)"

section \<open>Markers and the view state of the scene root\<close>

text \<open>A marker position is the three-element array of the marker list, \<^verbatim>\<open>[x, y, z]\<close>.\<close>

type_synonym position = "real \<times> real \<times> real"

record content =
  title :: string
  description :: string
  specs :: "string list"

record point =
  position :: position
  label :: string
  content :: content

text \<open>\<^verbatim>\<open>App.jsx\<close> stores the object \<^verbatim>\<open>{ position, label, point }\<close> as the selection.\<close>

record selected =
  sel_position :: position
  sel_label :: string
  sel_point :: point

text \<open>
  The three \<^verbatim>\<open>useState\<close> cells of \<^verbatim>\<open>App\<close>; \<open>None\<close> is \<^verbatim>\<open>null\<close>. In \<^verbatim>\<open>App.jsx\<close> the
  selection is a \<open>selected\<close> object, in \<^verbatim>\<open>part_000\<close> it is the index of the marker.
\<close>

record 'sel app_state =
  cameraTarget :: "vec3 option"
  cameraLookAt :: "vec3 option"
  selectedPoint :: "'sel option"

text \<open>\<^verbatim>\<open>App.jsx\<close>, \<^verbatim>\<open>handlePointClick\<close> (lines 245-259).\<close>

definition handlePointClick ::
  "selected app_state \<Rightarrow> position \<Rightarrow> string \<Rightarrow> point \<Rightarrow> selected app_state" where
  "handlePointClick s pos lbl pt =
     (case pos of (p0, p1, p2) \<Rightarrow>
        let direction = normalize_v3 (Vector3 p0 p1 p2);
            cameraPos = Vector3 (p0 + vx direction * 5)
                                (p1 + vy direction * 5)
                                (p2 + vz direction * 5)
        in s\<lparr>selectedPoint := Some \<lparr>sel_position = pos, sel_label = lbl, sel_point = pt\<rparr>,
              cameraTarget := Some cameraPos,
              cameraLookAt := Some (Vector3 p0 p1 p2)\<rparr>)"

text \<open>\<^verbatim>\<open>App.jsx\<close>, \<^verbatim>\<open>handleResetCamera\<close> (lines 261-265).\<close>

definition handleResetCamera :: "selected app_state \<Rightarrow> selected app_state" where
  "handleResetCamera s =
     s\<lparr>cameraTarget := Some (Vector3 15 12 15),
       cameraLookAt := Some (Vector3 0 0 0),
       selectedPoint := None\<rparr>"

text \<open>\<^verbatim>\<open>App.jsx\<close>, the two close buttons of the panel: \<^verbatim>\<open>() => setSelectedPoint(null)\<close>.\<close>

definition closePanel :: "selected app_state \<Rightarrow> selected app_state" where
  "closePanel s = s\<lparr>selectedPoint := None\<rparr>"

text \<open>\<^verbatim>\<open>part_000\<close>, \<^verbatim>\<open>handlePointClick\<close> (lines 158-164).\<close>

definition handlePointClick_0 :: "nat app_state \<Rightarrow> position \<Rightarrow> nat \<Rightarrow> nat app_state" where
  "handlePointClick_0 s pos idx =
     (case pos of (p0, p1, p2) \<Rightarrow>
        let dir = normalize_v3 (Vector3 p0 p1 p2);
            camPos = Vector3 (p0 + vx dir * 4.2) (p1 + vy dir * 4.2) (p2 + vz dir * 4.2)
        in s\<lparr>selectedPoint := Some idx,
              cameraTarget := Some camPos,
              cameraLookAt := Some (Vector3 p0 p1 p2)\<rparr>)"

text \<open>\<^verbatim>\<open>part_000\<close>, \<^verbatim>\<open>resetCamera\<close> (lines 166-170).\<close>

definition resetCamera_0 :: "nat app_state \<Rightarrow> nat app_state" where
  "resetCamera_0 s =
     s\<lparr>cameraTarget := Some (Vector3 14 10 14),
       cameraLookAt := Some (Vector3 0 0 0),
       selectedPoint := None\<rparr>"

text \<open>\<^verbatim>\<open>part_000\<close>, the close button of the panel: \<^verbatim>\<open>() => setSelectedIndex(null)\<close>.\<close>

definition closePanel_0 :: "nat app_state \<Rightarrow> nat app_state" where
  "closePanel_0 s = s\<lparr>selectedPoint := None\<rparr>"

text \<open>
  A click on a marker. \<^verbatim>\<open>App.jsx\<close> renders one \<^verbatim>\<open>GlowingPoint\<close> per marker with the props
  \<^verbatim>\<open>position={point.position} label={point.label} point={point} onPointClick={handlePointClick}\<close>
  (lines 328-337), and the mesh calls \<^verbatim>\<open>onPointClick(position, label, point)\<close> (line 50).
\<close>

definition GlowingPoint_onClick :: "selected app_state \<Rightarrow> point \<Rightarrow> selected app_state" where
  "GlowingPoint_onClick s pt = handlePointClick s (position pt) (label pt) pt"

text \<open>
  \<^verbatim>\<open>part_000\<close> renders marker \<open>p\<close> at index \<open>i\<close> with
  \<^verbatim>\<open>onPointClick={() => handlePointClick(p.position, i)}\<close> (line 203); the mesh calls
  \<^verbatim>\<open>onPointClick && onPointClick(position)\<close> (line 53), whose argument the closure ignores.
\<close>

definition GlowingPoint_onClick_0 :: "nat app_state \<Rightarrow> point \<Rightarrow> nat \<Rightarrow> nat app_state" where
  "GlowingPoint_onClick_0 s p i = handlePointClick_0 s (position p) i"

text \<open>
  The point reached from \<open>p\<close> by moving the distance \<open>d\<close> along the normalized direction
  of \<open>p\<close> from the origin: the wording of the specification for the camera position target.
\<close>

definition offsetAlongDirection :: "vec3 \<Rightarrow> real \<Rightarrow> vec3" where
  "offsetAlongDirection p d =
     Vector3 (vx p + d * vx (normalize_v3 p))
             (vy p + d * vy (normalize_v3 p))
             (vz p + d * vz (normalize_v3 p))"

definition vec3_of :: "position \<Rightarrow> vec3" where
  "vec3_of pos = (case pos of (p0, p1, p2) \<Rightarrow> Vector3 p0 p1 p2)"

text \<open>The user events of the scene root, and the state after a sequence of them.\<close>

datatype ui_event = Click point | Reset | Close

fun app_step :: "selected app_state \<Rightarrow> ui_event \<Rightarrow> selected app_state" where
  "app_step s (Click pt) = GlowingPoint_onClick s pt"
| "app_step s Reset = handleResetCamera s"
| "app_step s Close = closePanel s"

datatype ui_event_0 = Click_0 point nat | Reset_0 | Close_0

fun app_step_0 :: "nat app_state \<Rightarrow> ui_event_0 \<Rightarrow> nat app_state" where
  "app_step_0 s (Click_0 p i) = GlowingPoint_onClick_0 s p i"
| "app_step_0 s Reset_0 = resetCamera_0 s"
| "app_step_0 s Close_0 = closePanel_0 s"

text \<open>The initial view state: the three cells start as \<^verbatim>\<open>useState(null)\<close>.\<close>

definition initial_app_state :: "'sel app_state" where
  "initial_app_state = \<lparr>cameraTarget = None, cameraLookAt = None, selectedPoint = None\<rparr>"

text \<open>The first marker of the marker list of \<^verbatim>\<open>App.jsx\<close> (lines 207-215).\<close>

definition pointA :: point where
  "pointA = \<lparr>position = (2, 3, -2), label = ''Point A'',
     content = \<lparr>title = ''Master Bedroom'',
       description = ''Spacious master bedroom with premium furnishings and natural lighting.'',
       specs = [''3.5m x 4.2m'', ''King bed'', ''Ensuite bathroom'']\<rparr>\<rparr>"

section \<open>The camera tween controller\<close>

text \<open>
  The camera, as far as the controller changes it: its position, and its orientation,
  recorded as the point last passed to \<^verbatim>\<open>camera.lookAt\<close> (the library turns the camera at
  its current position towards that point).
\<close>

record camera =
  camera_position :: vec3
  camera_lookAt :: vec3

text \<open>\<^verbatim>\<open>App.jsx\<close>, \<^verbatim>\<open>animationRef\<close> (lines 101-106); \<open>None\<close> is \<^verbatim>\<open>null\<close>.\<close>

record animation =
  startPosition :: "vec3 option"
  startLookAt :: "vec3 option"
  progress :: real
  isAnimating :: bool

definition animationRef_initial :: animation where
  "animationRef_initial =
     \<lparr>startPosition = None, startLookAt = None, progress = 0, isAnimating = False\<rparr>"

text \<open>\<^verbatim>\<open>App.jsx\<close>, \<^verbatim>\<open>easeInOutCubic\<close> (lines 94-96).\<close>

definition easeInOutCubic :: "real \<Rightarrow> real" where
  "easeInOutCubic t = (if t < 0.5 then 4 * t * t * t else 1 - (-2 * t + 2) ^ 3 / 2)"

text \<open>
  \<^verbatim>\<open>App.jsx\<close>, the effect of \<^verbatim>\<open>CameraController\<close> (lines 109-116). React runs it when
  \<^verbatim>\<open>targetPosition\<close> or \<^verbatim>\<open>targetLookAt\<close> changes; both handlers of the scene root assign
  fresh vectors, so it runs after every assignment of a target.
\<close>

definition CameraController_effect ::
  "camera \<Rightarrow> animation \<Rightarrow> vec3 option \<Rightarrow> vec3 option \<Rightarrow> animation" where
  "CameraController_effect cam animation targetPosition targetLookAt =
     (if targetPosition = None \<or> targetLookAt = None then animation
      else animation\<lparr>startPosition := Some (camera_position cam),
                     startLookAt := Some (Vector3 0 0 0),
                     progress := 0,
                     isAnimating := True\<rparr>)"

text \<open>
  \<^verbatim>\<open>App.jsx\<close>, the frame callback of \<^verbatim>\<open>CameraController\<close> (lines 118-150). Reading a
  coordinate of \<^verbatim>\<open>null\<close> throws a \<^verbatim>\<open>TypeError\<close>.
\<close>

datatype error = TypeError

definition CameraController_frame ::
  "vec3 option \<Rightarrow> vec3 option \<Rightarrow> camera \<times> animation \<Rightarrow> error + camera \<times> animation" where
  "CameraController_frame targetPosition targetLookAt ca =
     (case ca of (cam, animation) \<Rightarrow>
        if \<not> isAnimating animation then Inr (cam, animation)
        else
          let animation = animation\<lparr>progress := progress animation + 0.004\<rparr> in
          if progress animation \<ge> 1 then
            (case (targetPosition, targetLookAt) of
               (Some tpos, Some tlook) \<Rightarrow>
                 Inr (\<lparr>camera_position = tpos, camera_lookAt = tlook\<rparr>,
                      animation\<lparr>progress := 1, isAnimating := False\<rparr>)
             | _ \<Rightarrow> Inl TypeError)
          else
            let eased = easeInOutCubic (progress animation) in
            (case (startPosition animation, targetPosition, startLookAt animation, targetLookAt) of
               (Some sp, Some tpos, Some sl, Some tlook) \<Rightarrow>
                 Inr (\<lparr>camera_position = lerpVectors sp tpos eased,
                       camera_lookAt = lerpVectors sl tlook eased\<rparr>,
                      animation)
             | _ \<Rightarrow> Inl TypeError))"

text \<open>A run of \<open>n\<close> frames with the same targets; an exception ends the run.\<close>

fun CameraController_frames ::
  "nat \<Rightarrow> vec3 option \<Rightarrow> vec3 option \<Rightarrow> camera \<times> animation \<Rightarrow> error + camera \<times> animation"
  where
  "CameraController_frames 0 targetPosition targetLookAt ca = Inr ca"
| "CameraController_frames (Suc n) targetPosition targetLookAt ca =
     (case CameraController_frame targetPosition targetLookAt ca of
        Inl e \<Rightarrow> Inl e
      | Inr ca' \<Rightarrow> CameraController_frames n targetPosition targetLookAt ca')"

text \<open>
  \<^verbatim>\<open>part_000\<close>, the \<^verbatim>\<open>ref\<close> of \<^verbatim>\<open>CameraController\<close> (line 77). There is no flag: the
  animation is inactive when \<^verbatim>\<open>progress >= 1\<close>.
\<close>

record ref_0 =
  progress_0 :: real
  fromPos :: vec3
  fromLookAt :: vec3

definition ref_initial_0 :: ref_0 where
  "ref_initial_0 = \<lparr>progress_0 = 1, fromPos = Vector3 0 0 0, fromLookAt = Vector3 0 0 0\<rparr>"

text \<open>\<^verbatim>\<open>part_000\<close>, the effect of \<^verbatim>\<open>CameraController\<close> (lines 79-84).\<close>

definition CameraController_effect_0 ::
  "camera \<Rightarrow> ref_0 \<Rightarrow> vec3 option \<Rightarrow> vec3 option \<Rightarrow> ref_0" where
  "CameraController_effect_0 cam r targetPos targetLookAt =
     (if targetPos = None \<or> targetLookAt = None then r
      else r\<lparr>progress_0 := 0,
             fromPos := camera_position cam,
             fromLookAt := Vector3 0 0 0\<rparr>)"

text \<open>
  \<^verbatim>\<open>part_000\<close>, the frame callback of \<^verbatim>\<open>CameraController\<close> (lines 86-96), in exact
  arithmetic. The facts below use it for the progress value only; where the camera ends
  is settled on \<open>CameraController_frame_0_double\<close>.
\<close>

definition CameraController_frame_0 ::
  "vec3 option \<Rightarrow> vec3 option \<Rightarrow> camera \<times> ref_0 \<Rightarrow> camera \<times> ref_0" where
  "CameraController_frame_0 targetPos targetLookAt ca =
     (case ca of (cam, r) \<Rightarrow>
        (case (targetPos, targetLookAt) of
           (Some tpos, Some tlook) \<Rightarrow>
             if progress_0 r \<ge> 1 then (cam, r)
             else
               let r = r\<lparr>progress_0 := min 1 (progress_0 r + 0.03)\<rparr>;
                   eased = (1 - cos (progress_0 r * pi)) / 2
               in (\<lparr>camera_position = lerpVectors (fromPos r) tpos eased,
                    camera_lookAt = lerpVectors (fromLookAt r) tlook eased\<rparr>,
                   r)
         | _ \<Rightarrow> (cam, r)))"

fun CameraController_frames_0 ::
  "nat \<Rightarrow> vec3 option \<Rightarrow> vec3 option \<Rightarrow> camera \<times> ref_0 \<Rightarrow> camera \<times> ref_0" where
  "CameraController_frames_0 0 targetPos targetLookAt ca = ca"
| "CameraController_frames_0 (Suc n) targetPos targetLookAt ca =
     CameraController_frames_0 n targetPos targetLookAt
       (CameraController_frame_0 targetPos targetLookAt ca)"

text \<open>
  The wiring of the scene root to the controller: \<^verbatim>\<open>App\<close> renders
  \<^verbatim>\<open><CameraController targetPosition={cameraTarget} targetLookAt={cameraLookAt} />\<close>
  (\<^verbatim>\<open>App.jsx\<close> line 339, \<^verbatim>\<open>part_000\<close> line 207), so after a handler has assigned new
  targets the effect runs with the targets of the new view state.
\<close>

definition App_retarget :: "camera \<Rightarrow> animation \<Rightarrow> 'sel app_state \<Rightarrow> animation" where
  "App_retarget cam animation s =
     CameraController_effect cam animation (cameraTarget s) (cameraLookAt s)"

definition App_retarget_0 :: "camera \<Rightarrow> ref_0 \<Rightarrow> 'sel app_state \<Rightarrow> ref_0" where
  "App_retarget_0 cam r s = CameraController_effect_0 cam r (cameraTarget s) (cameraLookAt s)"

section \<open>The asset loader\<close>

text \<open>
  A JavaScript number that may have left the finite range: \<open>NonFinite\<close> stands for
  \<^verbatim>\<open>Infinity\<close>, \<^verbatim>\<open>-Infinity\<close> and \<^verbatim>\<open>NaN\<close>, which a division by zero yields and which the
  real numbers do not have.
\<close>

datatype 'a js = Finite 'a | NonFinite

definition js_div :: "real \<Rightarrow> real \<Rightarrow> real js" where
  "js_div a b = (if b = 0 then NonFinite else Finite (a / b))"

text \<open>
  \<^verbatim>\<open>THREE.Box3\<close>, following the library:
  \<^verbatim>\<open>isEmpty() { return max.x < min.x || max.y < min.y || max.z < min.z }\<close>,
  \<^verbatim>\<open>getCenter(t) { return isEmpty() ? t.set(0,0,0) : t.addVectors(min, max).multiplyScalar(0.5) }\<close>,
  \<^verbatim>\<open>getSize(t) { return isEmpty() ? t.set(0,0,0) : t.subVectors(max, min) }\<close>.
\<close>

record box3 =
  box_min :: vec3
  box_max :: vec3

definition isEmpty :: "box3 \<Rightarrow> bool" where
  "isEmpty b = (vx (box_max b) < vx (box_min b) \<or> vy (box_max b) < vy (box_min b)
                \<or> vz (box_max b) < vz (box_min b))"

definition add_v3 :: "vec3 \<Rightarrow> vec3 \<Rightarrow> vec3" where
  "add_v3 a b = Vector3 (vx a + vx b) (vy a + vy b) (vz a + vz b)"

definition min_v3 :: "vec3 \<Rightarrow> vec3 \<Rightarrow> vec3" where
  "min_v3 a b = Vector3 (min (vx a) (vx b)) (min (vy a) (vy b)) (min (vz a) (vz b))"

definition max_v3 :: "vec3 \<Rightarrow> vec3 \<Rightarrow> vec3" where
  "max_v3 a b = Vector3 (max (vx a) (vx b)) (max (vy a) (vy b)) (max (vz a) (vz b))"

definition getCenter :: "box3 \<Rightarrow> vec3" where
  "getCenter b =
     (if isEmpty b then Vector3 0 0 0 else multiplyScalar (add_v3 (box_min b) (box_max b)) 0.5)"

definition getSize :: "box3 \<Rightarrow> vec3" where
  "getSize b = (if isEmpty b then Vector3 0 0 0 else sub_v3 (box_max b) (box_min b))"

text \<open>
  The loaded asset, as far as the loader reads and changes it: the position and the scale
  of the root object, and the bounding box of its geometry in the root's own coordinates.
  The loader never rotates the root, and the root hangs directly below the untransformed
  scene of the canvas, so a point \<open>v\<close> of the geometry is drawn at
  \<open>position + scale * v\<close> (componentwise), which is how the library composes the matrix
  of an object.
\<close>

record object3d =
  obj_position :: vec3
  obj_scale :: vec3
  geometry :: box3

definition localToWorld :: "object3d \<Rightarrow> vec3 \<Rightarrow> vec3" where
  "localToWorld obj v =
     Vector3 (vx (obj_position obj) + vx (obj_scale obj) * vx v)
             (vy (obj_position obj) + vy (obj_scale obj) * vy v)
             (vz (obj_position obj) + vz (obj_scale obj) * vz v)"

text \<open>
  \<^verbatim>\<open>new THREE.Box3().setFromObject(obj)\<close>: the bounding box of the geometry in world
  coordinates, under the object's current position and scale. A box without vertices
  stays empty.
\<close>

definition setFromObject :: "object3d \<Rightarrow> box3" where
  "setFromObject obj =
     (if isEmpty (geometry obj) then geometry obj
      else \<lparr>box_min = min_v3 (localToWorld obj (box_min (geometry obj)))
                              (localToWorld obj (box_max (geometry obj))),
            box_max = max_v3 (localToWorld obj (box_min (geometry obj)))
                              (localToWorld obj (box_max (geometry obj)))\<rparr>)"

text \<open>The root of a freshly loaded asset: at the origin, with scale 1.\<close>

definition loaded :: "box3 \<Rightarrow> object3d" where
  "loaded g = \<lparr>obj_position = Vector3 0 0 0, obj_scale = Vector3 1 1 1, geometry = g\<rparr>"

text \<open>\<^verbatim>\<open>Math.max(size.x, size.y, size.z)\<close>.\<close>

definition maxDim :: "vec3 \<Rightarrow> real" where
  "maxDim sz = max (max (vx sz) (vy sz)) (vz sz)"

text \<open>\<^verbatim>\<open>App.jsx\<close>, the scale factor of \<^verbatim>\<open>Model\<close> (lines 165-167): \<^verbatim>\<open>10 / maxDim\<close>.\<close>

definition Model_scale :: "vec3 \<Rightarrow> real js" where
  "Model_scale sz = js_div 10 (maxDim sz)"

text \<open>
  \<^verbatim>\<open>App.jsx\<close>, the effect of \<^verbatim>\<open>Model\<close> (lines 159-183):
  \<^verbatim>\<open>scene.position.sub(center); scene.scale.multiplyScalar(scale)\<close>. The shadow flags and
  the \<^verbatim>\<open>onModelLoad\<close> callback do not touch position or scale and are left out. With a
  scale factor that is not finite the scale of the root is not finite either.
\<close>

definition Model_effect :: "object3d \<Rightarrow> object3d js" where
  "Model_effect scene =
     (let box = setFromObject scene;
          center = getCenter box;
          sz = getSize box
      in case Model_scale sz of
           NonFinite \<Rightarrow> NonFinite
         | Finite scale \<Rightarrow>
             Finite (scene\<lparr>obj_position := sub_v3 (obj_position scene) center,
                           obj_scale := multiplyScalar (obj_scale scene) scale\<rparr>))"

text \<open>
  \<^verbatim>\<open>part_000\<close>, the scale factor of \<^verbatim>\<open>Model\<close> (lines 113-115):
  \<^verbatim>\<open>maxDim > 0 ? 6 / maxDim : 1\<close>.
\<close>

definition Model_scale_0 :: "vec3 \<Rightarrow> real" where
  "Model_scale_0 sz = (if maxDim sz > 0 then 6 / maxDim sz else 1)"

text \<open>
  \<^verbatim>\<open>part_000\<close>, the effect of \<^verbatim>\<open>Model\<close> (lines 107-133):
  \<^verbatim>\<open>scene.scale.setScalar(scale); scene.position.sub(center.multiplyScalar(scale))\<close>.
\<close>

definition Model_effect_0 :: "object3d \<Rightarrow> object3d" where
  "Model_effect_0 scene =
     (let box = setFromObject scene;
          sz = getSize box;
          scale = Model_scale_0 sz;
          center = getCenter box
      in scene\<lparr>obj_scale := Vector3 scale scale scale,
               obj_position := sub_v3 (obj_position scene) (multiplyScalar center scale)\<rparr>)"

section \<open>The device-capability probe\<close>

text \<open>
  What the probe reads of the browser: \<^verbatim>\<open>window.innerWidth\<close>, \<^verbatim>\<open>window.devicePixelRatio\<close>
  and \<^verbatim>\<open>navigator.hardwareConcurrency\<close>; \<open>None\<close> is \<^verbatim>\<open>undefined\<close>.
\<close>

record window =
  innerWidth :: real
  devicePixelRatio :: "real option"
  hardwareConcurrency :: "nat option"

record device =
  isMobile :: bool
  lowPower :: bool

text \<open>
  \<^verbatim>\<open>part_000\<close>, \<^verbatim>\<open>useDevicePerformance\<close> (lines 16-32). The initial state (lines 17-18);
  \<open>None\<close> is a run without a \<^verbatim>\<open>window\<close>.
\<close>

definition useDevicePerformance_initial :: "window option \<Rightarrow> device" where
  "useDevicePerformance_initial w =
     \<lparr>isMobile = (case w of None \<Rightarrow> False | Some w \<Rightarrow> innerWidth w \<le> 768),
      lowPower = False\<rparr>"

text \<open>The resize listener (lines 21-23).\<close>

definition onResize :: "window \<Rightarrow> device \<Rightarrow> device" where
  "onResize w d = d\<lparr>isMobile := innerWidth w \<le> 768\<rparr>"

text \<open>
  The body of the mount effect (lines 25-27): \<^verbatim>\<open>window.devicePixelRatio || 1\<close> reads an
  undefined or zero ratio as 1, and \<^verbatim>\<open>undefined <= 2\<close> is false.
\<close>

definition useDevicePerformance_effect :: "window \<Rightarrow> device \<Rightarrow> device" where
  "useDevicePerformance_effect w d =
     (let dpr = (case devicePixelRatio w of None \<Rightarrow> 1 | Some x \<Rightarrow> if x = 0 then 1 else x)
      in d\<lparr>lowPower := (dpr < 1 \<or> dpr \<ge> 2.5
                          \<or> (case hardwareConcurrency w of None \<Rightarrow> False | Some c \<Rightarrow> c \<le> 2))\<rparr>)"

text \<open>
  \<^verbatim>\<open>App.jsx\<close> keeps only \<^verbatim>\<open>isMobile\<close>: its initial value (line 196) and \<^verbatim>\<open>handleResize\<close>
  (lines 199-201).
\<close>

definition App_isMobile_initial :: "window \<Rightarrow> bool" where
  "App_isMobile_initial w = (innerWidth w \<le> 768)"

definition handleResize :: "window \<Rightarrow> bool \<Rightarrow> bool" where
  "handleResize w isMobile_old = (innerWidth w \<le> 768)"

section \<open>Delivery of a click to the markers\<close>

text \<open>
  The canvas library delivers a click to the click handlers of the objects that the
  pointer ray hits, nearest first, and stops as soon as a handler has called
  \<^verbatim>\<open>e.stopPropagation()\<close>. A handler is modelled as a function from the state and the
  object hit to the new state and the flag "propagation stopped"; the delivery returns
  the final state and the objects whose handler ran.
\<close>

fun deliver_click :: "('s \<Rightarrow> 'h \<Rightarrow> 's \<times> bool) \<Rightarrow> 's \<Rightarrow> 'h list \<Rightarrow> 's \<times> 'h list" where
  "deliver_click handler s [] = (s, [])"
| "deliver_click handler s (h # hs) =
     (case handler s h of
        (s', stopped) \<Rightarrow>
          if stopped then (s', [h])
          else (case deliver_click handler s' hs of (s'', called) \<Rightarrow> (s'', h # called)))"

text \<open>
  \<^verbatim>\<open>App.jsx\<close>, the mesh of \<^verbatim>\<open>GlowingPoint\<close> (lines 48-53):
  \<^verbatim>\<open>onClick={() => onPointClick(position, label, point)}\<close>. The handler does not take the
  event and does not stop its propagation.
\<close>

definition GlowingPoint_mesh_onClick ::
  "selected app_state \<Rightarrow> point \<Rightarrow> selected app_state \<times> bool" where
  "GlowingPoint_mesh_onClick s pt = (GlowingPoint_onClick s pt, False)"

text \<open>
  \<^verbatim>\<open>part_000\<close>, the mesh of \<^verbatim>\<open>GlowingPoint\<close> (lines 49-58):
  \<^verbatim>\<open>onClick={(e) => { e.stopPropagation(); onPointClick && onPointClick(position); }}\<close>.
  A marker is the pair of its record and its index.
\<close>

definition GlowingPoint_mesh_onClick_0 ::
  "nat app_state \<Rightarrow> point \<times> nat \<Rightarrow> nat app_state \<times> bool" where
  "GlowingPoint_mesh_onClick_0 s m = (case m of (p, i) \<Rightarrow> (GlowingPoint_onClick_0 s p i, True))"

text \<open>
  \<^verbatim>\<open>part_001\<close>, the mesh of \<^verbatim>\<open>ClickPoint\<close> (lines 20-26):
  \<^verbatim>\<open>onClick={(e) => { e.stopPropagation(); onClick(position); }}\<close>, where \<^verbatim>\<open>onClick\<close> is
  \<^verbatim>\<open>(point) => setTarget(new THREE.Vector3(point[0] * 1.8, point[1] * 1.8, point[2] * 1.8))\<close>
  (lines 74-78). The state of this variant is the target alone.
\<close>

definition ClickPoint_mesh_onClick_1 :: "vec3 option \<Rightarrow> position \<Rightarrow> vec3 option \<times> bool" where
  "ClickPoint_mesh_onClick_1 target pos =
     (case pos of (p0, p1, p2) \<Rightarrow> (Some (Vector3 (p0 * 1.8) (p1 * 1.8) (p2 * 1.8)), True))"

text \<open>The second marker of the marker list of \<^verbatim>\<open>App.jsx\<close> (lines 216-224).\<close>

definition pointB :: point where
  \<open>pointB = \<lparr>position = (-3, 2, 1), label = ''Point B'',
     content = \<lparr>title = ''Living Room'',
       description = ''Modern living area with comfortable seating and entertainment setup.'',
       specs = [''5m x 6m'', ''Premium sofa'', ''65" Smart TV'']\<rparr>\<rparr>\<close>

section \<open>The last frame of the tween in double precision\<close>

text \<open>
  Whether the camera ends exactly on the target depends on the rounding of IEEE doubles,
  which the real numbers above leave out. \<open>double\<close> rounds a real number to the nearest
  number with a 53-bit significand, ties to the even significand, as every arithmetic
  operation of JavaScript does (overflow and subnormal numbers, which the values of the
  scene do not reach, are left out).
\<close>

definition round_even :: "real \<Rightarrow> int" where
  "round_even y =
     (let f = \<lfloor>y\<rfloor>; d = y - of_int f
      in if d < 1/2 then f else if 1/2 < d then f + 1 else if even f then f else f + 1)"

definition double :: "real \<Rightarrow> real" where
  "double x =
     (if x = 0 then 0
      else let e = \<lfloor>log 2 \<bar>x\<bar>\<rfloor>
           in of_int (round_even (x * 2 powi (52 - e))) * 2 powi (e - 52))"

text \<open>\<^verbatim>\<open>lerpVectors\<close> of the library with every operation rounded.\<close>

definition lerpVectors_double :: "vec3 \<Rightarrow> vec3 \<Rightarrow> real \<Rightarrow> vec3" where
  "lerpVectors_double v1 v2 alpha =
     Vector3 (double (vx v1 + double (double (vx v2 - vx v1) * alpha)))
             (double (vy v1 + double (double (vy v2 - vy v1) * alpha)))
             (double (vz v1 + double (double (vz v2 - vz v1) * alpha)))"

text \<open>
  \<^verbatim>\<open>part_000\<close>, the frame callback of \<^verbatim>\<open>CameraController\<close> (lines 86-96) with every
  operation rounded. The frame calls \<^verbatim>\<open>Math.cos\<close> once, on \<^verbatim>\<open>r.progress * Math.PI\<close>; the
  language leaves the precision of \<^verbatim>\<open>Math.cos\<close> to the engine, so the double it returns is
  the parameter \<open>cos_result\<close>. In the frame in which progress reaches 1 the argument is
  \<^verbatim>\<open>Math.PI\<close> and the engines return -1.
\<close>

definition CameraController_frame_0_double ::
  "real \<Rightarrow> vec3 option \<Rightarrow> vec3 option \<Rightarrow> camera \<times> ref_0 \<Rightarrow> camera \<times> ref_0" where
  "CameraController_frame_0_double cos_result targetPos targetLookAt ca =
     (case ca of (cam, r) \<Rightarrow>
        (case (targetPos, targetLookAt) of
           (Some tpos, Some tlook) \<Rightarrow>
             if progress_0 r \<ge> 1 then (cam, r)
             else
               let r = r\<lparr>progress_0 := min 1 (double (progress_0 r + double 0.03))\<rparr>;
                   eased = double (double (1 - cos_result) / 2)
               in (\<lparr>camera_position = lerpVectors_double (fromPos r) tpos eased,
                    camera_lookAt = lerpVectors_double (fromLookAt r) tlook eased\<rparr>,
                   r)
         | _ \<Rightarrow> (cam, r)))"

section \<open>Concrete inputs\<close>

text \<open>
  The camera position target that \<^verbatim>\<open>handlePointClick\<close> of \<^verbatim>\<open>part_000\<close> computes in doubles
  for Point A at (2, 3, -2): about (4.037299250305197, 6.055948875457796,
  -4.037299250305197).
\<close>

definition pointA_target_0 :: vec3 where
  "pointA_target_0 =
     Vector3 (4545594849814417 / 2 ^ 50) (3409196137360813 / 2 ^ 49) (- 4545594849814417 / 2 ^ 50)"

text \<open>
  The \<^verbatim>\<open>ref\<close> of the controller of \<^verbatim>\<open>part_000\<close> after 33 frames of the episode that a click
  on Point A starts while the camera is at its initial position (14, 10, 14): 33 rounded
  additions of 0.03 give the progress 0.9900000000000007.
\<close>

definition ref_after_33_frames :: ref_0 where
  "ref_after_33_frames =
     \<lparr>progress_0 = 2229281815548397 / 2 ^ 51, fromPos = Vector3 14 10 14,
      fromLookAt = Vector3 0 0 0\<rparr>"

text \<open>The camera of \<^verbatim>\<open>part_000\<close> at its initial position (line 185).\<close>

definition camera_default_0 :: camera where
  "camera_default_0 = \<lparr>camera_position = Vector3 14 10 14, camera_lookAt = Vector3 0 0 0\<rparr>"

text \<open>An asset whose geometry is a cube with corners (0, 0, 0) and (20, 20, 20).\<close>

definition cube20 :: box3 where
  "cube20 = \<lparr>box_min = Vector3 0 0 0, box_max = Vector3 20 20 20\<rparr>"

text \<open>An asset whose geometry is the single vertex (1, 1, 1).\<close>

definition single_vertex :: box3 where
  "single_vertex = \<lparr>box_min = Vector3 1 1 1, box_max = Vector3 1 1 1\<rparr>"

text \<open>
  A desktop browser window, and the same window after the user has zoomed the page to
  300 percent, which triples the pixel ratio, shrinks the width in logical pixels and
  fires a resize event.
\<close>

definition desktop_window :: window where
  "desktop_window = \<lparr>innerWidth = 1024, devicePixelRatio = Some 1, hardwareConcurrency = Some 8\<rparr>"

definition zoomed_window :: window where
  "zoomed_window = \<lparr>innerWidth = 341, devicePixelRatio = Some 3, hardwareConcurrency = Some 8\<rparr>"

section \<open>Facts about the vector operations\<close>

lemma length_v3_nonneg: "0 \<le> length_v3 v"
  by (simp add: length_v3_def)

lemma length_v3_zero_iff: "length_v3 v = 0 \<longleftrightarrow> v = Vector3 0 0 0"
proof
  assume "length_v3 v = 0"
  then have "vx v * vx v + vy v * vy v + vz v * vz v = 0"
    by (simp add: length_v3_def)
  then have "vx v = 0 \<and> vy v = 0 \<and> vz v = 0"
    by (metis add_nonneg_eq_0_iff mult_eq_0_iff zero_le_square add_nonneg_nonneg)
  then show "v = Vector3 0 0 0"
    by (cases v) simp
next
  assume "v = Vector3 0 0 0"
  then show "length_v3 v = 0"
    by (simp add: length_v3_def)
qed

lemma normalize_divisor_pos: "0 < normalize_divisor v"
  using length_v3_nonneg [of v] by (simp add: normalize_divisor_def)

lemma length_v3_multiplyScalar: "length_v3 (multiplyScalar v s) = \<bar>s\<bar> * length_v3 v"
proof -
  have "vx v * s * (vx v * s) + vy v * s * (vy v * s) + vz v * s * (vz v * s)
        = s\<^sup>2 * (vx v * vx v + vy v * vy v + vz v * vz v)"
    by (simp add: power2_eq_square algebra_simps)
  then show ?thesis
    by (simp add: length_v3_def multiplyScalar_def real_sqrt_mult)
qed

lemma length_v3_normalize:
  "v \<noteq> Vector3 0 0 0 \<Longrightarrow> length_v3 (normalize_v3 v) = 1"
proof -
  assume "v \<noteq> Vector3 0 0 0"
  then have nz: "length_v3 v \<noteq> 0"
    by (simp add: length_v3_zero_iff)
  with length_v3_nonneg [of v] have pos: "0 < length_v3 v"
    by simp
  have "length_v3 (normalize_v3 v) = \<bar>1 / length_v3 v\<bar> * length_v3 v"
    using nz by (simp add: normalize_v3_def divideScalar_def normalize_divisor_def
        length_v3_multiplyScalar)
  also have "\<dots> = 1"
    using pos by simp
  finally show ?thesis .
qed

lemma length_v3_offset:
  assumes "p \<noteq> Vector3 0 0 0"
  shows "length_v3 (sub_v3 (offsetAlongDirection p d) p) = \<bar>d\<bar>"
proof -
  have "sub_v3 (offsetAlongDirection p d) p = multiplyScalar (normalize_v3 p) d"
    by (simp add: sub_v3_def offsetAlongDirection_def multiplyScalar_def mult.commute)
  then show ?thesis
    using length_v3_normalize [OF assms] by (simp add: length_v3_multiplyScalar)
qed

lemma normalize_v3_zero: "normalize_v3 (Vector3 0 0 0) = Vector3 0 0 0"
  by (simp add: normalize_v3_def divideScalar_def multiplyScalar_def)

lemma selectedPoint_app_step:
  "selectedPoint (app_step s e) =
     (case e of Click pt \<Rightarrow>
        Some \<lparr>sel_position = position pt, sel_label = label pt, sel_point = pt\<rparr>
      | _ \<Rightarrow> None)"
  by (cases e)
    (simp_all add: GlowingPoint_onClick_def handlePointClick_def handleResetCamera_def
      closePanel_def Let_def split: prod.splits)

lemma selectedPoint_app_step_0:
  "selectedPoint (app_step_0 s e) = (case e of Click_0 p i \<Rightarrow> Some i | _ \<Rightarrow> None)"
  by (cases e)
    (simp_all add: GlowingPoint_onClick_0_def handlePointClick_0_def resetCamera_0_def
      closePanel_0_def Let_def split: prod.splits)

section \<open>Facts about the camera tween controller\<close>

lemma frame_idle:
  "\<not> isAnimating a \<Longrightarrow> CameraController_frame tpo tlo (cam, a) = Inr (cam, a)"
  by (simp add: CameraController_frame_def)

lemma frames_idle:
  "\<not> isAnimating a \<Longrightarrow> CameraController_frames n tpo tlo (cam, a) = Inr (cam, a)"
  by (induction n) (simp_all add: frame_idle)

lemma frame_snap:
  "isAnimating a \<Longrightarrow> 1 \<le> progress a + 0.004 \<Longrightarrow>
   CameraController_frame (Some tpos) (Some tlook) (cam, a) =
     Inr (\<lparr>camera_position = tpos, camera_lookAt = tlook\<rparr>,
          a\<lparr>progress := 1, isAnimating := False\<rparr>)"
  by (simp add: CameraController_frame_def Let_def)

lemma frame_tween:
  "isAnimating a \<Longrightarrow> progress a + 0.004 < 1 \<Longrightarrow>
   startPosition a = Some sp \<Longrightarrow> startLookAt a = Some sl \<Longrightarrow>
   CameraController_frame (Some tpos) (Some tlook) (cam, a) =
     Inr (\<lparr>camera_position = lerpVectors sp tpos (easeInOutCubic (progress a + 0.004)),
           camera_lookAt = lerpVectors sl tlook (easeInOutCubic (progress a + 0.004))\<rparr>,
          a\<lparr>progress := progress a + 0.004\<rparr>)"
  by (simp add: CameraController_frame_def Let_def)

lemma frames_add:
  "CameraController_frames (m + n) tpo tlo ca =
     (case CameraController_frames m tpo tlo ca of
        Inl e \<Rightarrow> Inl e
      | Inr ca' \<Rightarrow> CameraController_frames n tpo tlo ca')"
  by (induction m arbitrary: ca) (simp_all split: sum.splits)

lemma frames_tween:
  "isAnimating a \<Longrightarrow> progress a + real n * 0.004 < 1 \<Longrightarrow>
   startPosition a = Some sp \<Longrightarrow> startLookAt a = Some sl \<Longrightarrow>
   \<exists>cam'. CameraController_frames n (Some tpos) (Some tlook) (cam, a) =
     Inr (cam', a\<lparr>progress := progress a + real n * 0.004\<rparr>)"
proof (induction n arbitrary: cam a)
  case 0
  then show ?case by simp
next
  case (Suc n)
  let ?a = "a\<lparr>progress := progress a + 0.004\<rparr>"
  from Suc.prems have sum: "progress a + 0.004 + real n * 0.004 < 1"
    by (simp add: add_divide_distrib)
  moreover have "0 \<le> real n * 0.004"
    by simp
  ultimately have lt: "progress a + 0.004 < 1"
    by linarith
  have step: "CameraController_frame (Some tpos) (Some tlook) (cam, a) =
     Inr (\<lparr>camera_position = lerpVectors sp tpos (easeInOutCubic (progress a + 0.004)),
           camera_lookAt = lerpVectors sl tlook (easeInOutCubic (progress a + 0.004))\<rparr>, ?a)"
    using Suc.prems lt by (simp add: frame_tween)
  have "\<exists>cam'. CameraController_frames n (Some tpos) (Some tlook)
      (\<lparr>camera_position = lerpVectors sp tpos (easeInOutCubic (progress a + 0.004)),
           camera_lookAt = lerpVectors sl tlook (easeInOutCubic (progress a + 0.004))\<rparr>, ?a) =
     Inr (cam', ?a\<lparr>progress := progress ?a + real n * 0.004\<rparr>)"
    using Suc.prems sum by (intro Suc.IH) simp_all
  then show ?case
    by (simp add: step add_divide_distrib add.assoc)
qed


lemma effect_Some:
  "CameraController_effect cam a (Some tpos) (Some tlook) =
     \<lparr>startPosition = Some (camera_position cam), startLookAt = Some (Vector3 0 0 0),
      progress = 0, isAnimating = True\<rparr>"
  by (simp add: CameraController_effect_def)

lemma episode_before:
  assumes "n < 250"
  shows "\<exists>cam'. CameraController_frames n (Some tpos) (Some tlook)
           (cam, CameraController_effect cam a (Some tpos) (Some tlook)) =
         Inr (cam', \<lparr>startPosition = Some (camera_position cam),
                     startLookAt = Some (Vector3 0 0 0),
                     progress = real n * 0.004, isAnimating = True\<rparr>)"
proof -
  let ?a = "CameraController_effect cam a (Some tpos) (Some tlook)"
  from assms have "real n < 250" by simp
  then have "progress ?a + real n * 0.004 < 1"
    by (simp add: effect_Some)
  with frames_tween [of ?a n "camera_position cam" "Vector3 0 0 0" tpos tlook cam]
  show ?thesis
    by (simp add: effect_Some)
qed

lemma episode_after:
  "CameraController_frames (250 + k) (Some tpos) (Some tlook)
     (cam, CameraController_effect cam a (Some tpos) (Some tlook)) =
   Inr (\<lparr>camera_position = tpos, camera_lookAt = tlook\<rparr>,
        \<lparr>startPosition = Some (camera_position cam), startLookAt = Some (Vector3 0 0 0),
         progress = 1, isAnimating = False\<rparr>)"
proof -
  let ?ca = "(cam, CameraController_effect cam a (Some tpos) (Some tlook))"
  obtain cam' where before: "CameraController_frames 249 (Some tpos) (Some tlook) ?ca =
      Inr (cam', \<lparr>startPosition = Some (camera_position cam),
                  startLookAt = Some (Vector3 0 0 0),
                  progress = real 249 * 0.004, isAnimating = True\<rparr>)"
    using episode_before [of 249 tpos tlook cam a] by auto
  have "CameraController_frames (250 + k) (Some tpos) (Some tlook) ?ca =
        CameraController_frames (249 + Suc k) (Some tpos) (Some tlook) ?ca"
    by simp
  also have "\<dots> = CameraController_frames (Suc k) (Some tpos) (Some tlook)
      (cam', \<lparr>startPosition = Some (camera_position cam),
                  startLookAt = Some (Vector3 0 0 0),
                  progress = real 249 * 0.004, isAnimating = True\<rparr>)"
    by (simp only: frames_add before sum.case)
  also have "\<dots> = Inr (\<lparr>camera_position = tpos, camera_lookAt = tlook\<rparr>,
        \<lparr>startPosition = Some (camera_position cam), startLookAt = Some (Vector3 0 0 0),
         progress = 1, isAnimating = False\<rparr>)"
    by (simp add: frame_snap frames_idle)
  finally show ?thesis .
qed

lemma episode_progress:
  "\<exists>cam' a'. CameraController_frames n (Some tpos) (Some tlook)
           (cam, CameraController_effect cam a (Some tpos) (Some tlook)) = Inr (cam', a')
     \<and> progress a' = min 1 (real n * 0.004)"
proof (cases "n < 250")
  case True
  then have "real n * 0.004 < 1" by simp
  with episode_before [OF True, of tpos tlook cam a] show ?thesis
    by auto
next
  case False
  then obtain k where "n = 250 + k"
    using le_Suc_ex not_less by blast
  moreover from False have "1 \<le> real n * 0.004" by simp
  ultimately show ?thesis
    using episode_after [of k tpos tlook cam a] by auto
qed

lemma frame_0_idle:
  "1 \<le> progress_0 r \<Longrightarrow> CameraController_frame_0 tpo tlo (cam, r) = (cam, r)"
  by (simp add: CameraController_frame_0_def split: option.splits)

lemma frames_0_idle:
  "1 \<le> progress_0 r \<Longrightarrow> CameraController_frames_0 n tpo tlo (cam, r) = (cam, r)"
  by (induction n) (simp_all add: frame_0_idle)

lemma frame_0_last:
  "progress_0 r < 1 \<Longrightarrow> 1 \<le> progress_0 r + 0.03 \<Longrightarrow>
   \<exists>cam'. CameraController_frame_0 (Some tpos) (Some tlook) (cam, r) =
     (cam', r\<lparr>progress_0 := 1\<rparr>)"
  by (simp add: CameraController_frame_0_def Let_def)

lemma frame_0_tween:
  "progress_0 r + 0.03 < 1 \<Longrightarrow>
   \<exists>cam'. CameraController_frame_0 (Some tpos) (Some tlook) (cam, r) =
     (cam', r\<lparr>progress_0 := progress_0 r + 0.03\<rparr>)"
  by (simp add: CameraController_frame_0_def Let_def)

lemma frames_0_add:
  "CameraController_frames_0 (m + n) tpo tlo ca =
     CameraController_frames_0 n tpo tlo (CameraController_frames_0 m tpo tlo ca)"
  by (induction m arbitrary: ca) simp_all

lemma frames_0_tween:
  "progress_0 r + real n * 0.03 < 1 \<Longrightarrow>
   \<exists>cam'. CameraController_frames_0 n (Some tpos) (Some tlook) (cam, r) =
     (cam', r\<lparr>progress_0 := progress_0 r + real n * 0.03\<rparr>)"
proof (induction n arbitrary: cam r)
  case 0
  then show ?case by simp
next
  case (Suc n)
  let ?r = "r\<lparr>progress_0 := progress_0 r + 0.03\<rparr>"
  from Suc.prems have sum: "progress_0 r + 0.03 + real n * 0.03 < 1"
    by (simp add: add_divide_distrib distrib_right)
  moreover have "0 \<le> real n * 0.03"
    by simp
  ultimately have lt: "progress_0 r + 0.03 < 1"
    by linarith
  obtain cam1 where step:
    "CameraController_frame_0 (Some tpos) (Some tlook) (cam, r) = (cam1, ?r)"
    using frame_0_tween [OF lt] by blast
  have "\<exists>cam'. CameraController_frames_0 n (Some tpos) (Some tlook) (cam1, ?r) =
     (cam', ?r\<lparr>progress_0 := progress_0 ?r + real n * 0.03\<rparr>)"
    using sum by (intro Suc.IH) simp
  then show ?case
    by (simp add: step add_divide_distrib distrib_right add.assoc)
qed

lemma effect_0_Some:
  "CameraController_effect_0 cam r (Some tpos) (Some tlook) =
     \<lparr>progress_0 = 0, fromPos = camera_position cam, fromLookAt = Vector3 0 0 0\<rparr>"
  by (simp add: CameraController_effect_0_def)

lemma episode_0_before:
  assumes "n < 34"
  shows "\<exists>cam'. CameraController_frames_0 n (Some tpos) (Some tlook)
           (cam, CameraController_effect_0 cam r (Some tpos) (Some tlook)) =
         (cam', \<lparr>progress_0 = real n * 0.03, fromPos = camera_position cam,
                 fromLookAt = Vector3 0 0 0\<rparr>)"
proof -
  let ?r = "CameraController_effect_0 cam r (Some tpos) (Some tlook)"
  from assms have "real n \<le> 33" by simp
  then have "progress_0 ?r + real n * 0.03 < 1"
    by (simp add: effect_0_Some)
  with frames_0_tween [of ?r n tpos tlook cam]
  show ?thesis
    by (simp add: effect_0_Some)
qed

lemma episode_0_after:
  "\<exists>cam'. CameraController_frames_0 (34 + k) (Some tpos) (Some tlook)
     (cam, CameraController_effect_0 cam r (Some tpos) (Some tlook)) =
   (cam', \<lparr>progress_0 = 1, fromPos = camera_position cam, fromLookAt = Vector3 0 0 0\<rparr>)"
proof -
  let ?ca = "(cam, CameraController_effect_0 cam r (Some tpos) (Some tlook))"
  let ?r = "\<lparr>progress_0 = real 33 * 0.03, fromPos = camera_position cam,
             fromLookAt = Vector3 0 0 0\<rparr>"
  obtain cam1 where before:
    "CameraController_frames_0 33 (Some tpos) (Some tlook) ?ca = (cam1, ?r)"
    using episode_0_before [of 33 tpos tlook cam r] by auto
  obtain cam2 where last:
    "CameraController_frame_0 (Some tpos) (Some tlook) (cam1, ?r) =
       (cam2, ?r\<lparr>progress_0 := 1\<rparr>)"
    using frame_0_last [of ?r tpos tlook cam1] by auto
  have "CameraController_frames_0 (34 + k) (Some tpos) (Some tlook) ?ca =
        CameraController_frames_0 (33 + Suc k) (Some tpos) (Some tlook) ?ca"
    by simp
  also have "\<dots> = CameraController_frames_0 (Suc k) (Some tpos) (Some tlook) (cam1, ?r)"
    by (simp only: frames_0_add before)
  also have "\<dots> = CameraController_frames_0 k (Some tpos) (Some tlook)
      (cam2, ?r\<lparr>progress_0 := 1\<rparr>)"
    by (simp only: CameraController_frames_0.simps last)
  also have "\<dots> = (cam2, ?r\<lparr>progress_0 := 1\<rparr>)"
    by (simp add: frames_0_idle)
  finally show ?thesis
    by simp
qed

lemma episode_0_progress:
  "\<exists>cam' r'. CameraController_frames_0 n (Some tpos) (Some tlook)
           (cam, CameraController_effect_0 cam r (Some tpos) (Some tlook)) = (cam', r')
     \<and> progress_0 r' = min 1 (real n * 0.03)"
proof (cases "n < 34")
  case True
  then have "real n \<le> 33" by simp
  then have "real n * 0.03 < 1" by simp
  with episode_0_before [OF True, of tpos tlook cam r] show ?thesis
    by auto
next
  case False
  then obtain k where "n = 34 + k"
    using le_Suc_ex not_less by blast
  moreover from False have "34 \<le> real n" by simp
  then have "1 \<le> real n * 0.03" by simp
  ultimately show ?thesis
    using episode_0_after [of k tpos tlook cam r] by auto
qed

lemma App_frame_reaching_1_snaps:
  assumes anim: "isAnimating a"
    and step: "CameraController_frame (Some tpos) (Some tlook) (cam, a) = Inr (cam', a')"
    and one: "progress a' = 1"
  shows "cam' = \<lparr>camera_position = tpos, camera_lookAt = tlook\<rparr> \<and> \<not> isAnimating a'
      \<and> CameraController_frames n tpo tlo (cam', a') = Inr (cam', a')"
proof (cases "1 \<le> progress a + 0.004")
  case True
  from frame_snap [OF anim True, of tpos tlook cam] step
  have "cam' = \<lparr>camera_position = tpos, camera_lookAt = tlook\<rparr>"
    and "a' = a\<lparr>progress := 1, isAnimating := False\<rparr>"
    by simp_all
  then show ?thesis
    by (simp add: frames_idle)
next
  case False
  with anim step have "progress a' = progress a + 0.004"
    by (auto simp: CameraController_frame_def Let_def split: option.splits)
  with False one show ?thesis
    by simp
qed

section \<open>Facts about the asset loader and the delivery of clicks\<close>

lemma setFromObject_loaded:
  "\<not> isEmpty g \<Longrightarrow> setFromObject (loaded g) = g"
  by (cases "box_min g"; cases "box_max g")
    (simp add: setFromObject_def loaded_def localToWorld_def min_v3_def max_v3_def isEmpty_def
      not_less min_absorb1 max_absorb2)

lemma maxDim_scaled:
  "0 \<le> s \<Longrightarrow> maxDim (Vector3 (s * a) (s * b) (s * c)) = s * maxDim (Vector3 a b c)"
  by (simp add: maxDim_def max_mult_distrib_left)

lemma Model_effect_0_centers_and_scales:
  assumes ne: "\<not> isEmpty g" and pos: "0 < maxDim (getSize g)"
  shows "getCenter (setFromObject (Model_effect_0 (loaded g))) = Vector3 0 0 0
    \<and> maxDim (getSize (setFromObject (Model_effect_0 (loaded g)))) = 6
    \<and> obj_scale (Model_effect_0 (loaded g)) =
        Vector3 (6 / maxDim (getSize g)) (6 / maxDim (getSize g)) (6 / maxDim (getSize g))"
proof -
  obtain a1 a2 a3 where mn: "box_min g = Vector3 a1 a2 a3" by (cases "box_min g") auto
  obtain b1 b2 b3 where mx: "box_max g = Vector3 b1 b2 b3" by (cases "box_max g") auto
  from ne have le: "a1 \<le> b1" "a2 \<le> b2" "a3 \<le> b3"
    by (simp_all add: isEmpty_def mn mx not_less)
  define m where "m = maxDim (getSize g)"
  define s where "s = 6 / m"
  from pos have s_pos: "0 < s" and m_pos: "0 < m"
    by (simp_all add: s_def m_def)
  have sz: "getSize g = Vector3 (b1 - a1) (b2 - a2) (b3 - a3)"
    using ne by (simp add: getSize_def sub_v3_def mn mx)
  have c: "getCenter g = Vector3 ((a1 + b1) * 0.5) ((a2 + b2) * 0.5) ((a3 + b3) * 0.5)"
    using ne by (simp add: getCenter_def add_v3_def multiplyScalar_def mn mx)
  have eff: "Model_effect_0 (loaded g) =
      \<lparr>obj_position = Vector3 (- ((a1 + b1) * 0.5 * s)) (- ((a2 + b2) * 0.5 * s))
                               (- ((a3 + b3) * 0.5 * s)),
       obj_scale = Vector3 s s s, geometry = g\<rparr>"
  proof -
    have "Model_scale_0 (getSize g) = s"
      using pos by (simp add: Model_scale_0_def s_def m_def)
    then have "Model_effect_0 (loaded g) =
        (loaded g)\<lparr>obj_scale := Vector3 s s s,
                   obj_position := sub_v3 (obj_position (loaded g))
                                     (multiplyScalar (getCenter g) s)\<rparr>"
      by (simp add: Model_effect_0_def Let_def setFromObject_loaded [OF ne])
    then show ?thesis
      by (simp add: c loaded_def sub_v3_def multiplyScalar_def)
  qed
  have mono: "s * a1 \<le> s * b1" "s * a2 \<le> s * b2" "s * a3 \<le> s * b3"
    using le s_pos by simp_all
  have box: "setFromObject (Model_effect_0 (loaded g)) =
      \<lparr>box_min = Vector3 (- ((a1 + b1) * 0.5 * s) + s * a1) (- ((a2 + b2) * 0.5 * s) + s * a2)
                         (- ((a3 + b3) * 0.5 * s) + s * a3),
       box_max = Vector3 (- ((a1 + b1) * 0.5 * s) + s * b1) (- ((a2 + b2) * 0.5 * s) + s * b2)
                         (- ((a3 + b3) * 0.5 * s) + s * b3)\<rparr>"
    using ne mono
    by (simp add: eff setFromObject_def localToWorld_def mn mx min_v3_def max_v3_def
        min_absorb1 max_absorb2)
  have nonempty: "\<not> isEmpty (setFromObject (Model_effect_0 (loaded g)))"
    using mono by (simp add: box isEmpty_def not_less)
  have center: "getCenter (setFromObject (Model_effect_0 (loaded g))) = Vector3 0 0 0"
    using nonempty by (simp add: getCenter_def) (simp add: box add_v3_def multiplyScalar_def algebra_simps)
  have "getSize (setFromObject (Model_effect_0 (loaded g))) =
      Vector3 (s * (b1 - a1)) (s * (b2 - a2)) (s * (b3 - a3))"
    using nonempty by (simp add: getSize_def) (simp add: box sub_v3_def algebra_simps)
  then have "maxDim (getSize (setFromObject (Model_effect_0 (loaded g)))) = s * m"
    using s_pos by (simp add: maxDim_scaled m_def sz)
  also have "\<dots> = 6"
    using m_pos by (simp add: s_def)
  finally show ?thesis
    using center by (simp add: eff s_def m_def)
qed

lemma Model_effect_scales_but_shifts:
  assumes ne: "\<not> isEmpty g" and pos: "0 < maxDim (getSize g)"
  shows "\<exists>obj. Model_effect (loaded g) = Finite obj
    \<and> maxDim (getSize (setFromObject obj)) = 10
    \<and> getCenter (setFromObject obj) =
        multiplyScalar (getCenter g) (10 / maxDim (getSize g) - 1)"
proof -
  obtain a1 a2 a3 where mn: "box_min g = Vector3 a1 a2 a3" by (cases "box_min g") auto
  obtain b1 b2 b3 where mx: "box_max g = Vector3 b1 b2 b3" by (cases "box_max g") auto
  from ne have le: "a1 \<le> b1" "a2 \<le> b2" "a3 \<le> b3"
    by (simp_all add: isEmpty_def mn mx not_less)
  define m where "m = maxDim (getSize g)"
  define s where "s = 10 / m"
  from pos have s_pos: "0 < s" and m_pos: "0 < m"
    by (simp_all add: s_def m_def)
  have sz: "getSize g = Vector3 (b1 - a1) (b2 - a2) (b3 - a3)"
    using ne by (simp add: getSize_def sub_v3_def mn mx)
  have c: "getCenter g = Vector3 ((a1 + b1) * 0.5) ((a2 + b2) * 0.5) ((a3 + b3) * 0.5)"
    using ne by (simp add: getCenter_def add_v3_def multiplyScalar_def mn mx)
  define obj where "obj =
      \<lparr>obj_position = Vector3 (- ((a1 + b1) * 0.5)) (- ((a2 + b2) * 0.5)) (- ((a3 + b3) * 0.5)),
       obj_scale = Vector3 s s s, geometry = g\<rparr>"
  have eff: "Model_effect (loaded g) = Finite obj"
  proof -
    have "Model_scale (getSize g) = Finite s"
      using pos by (simp add: Model_scale_def js_div_def s_def m_def)
    then have "Model_effect (loaded g) =
        Finite ((loaded g)\<lparr>obj_position := sub_v3 (obj_position (loaded g)) (getCenter g),
                           obj_scale := multiplyScalar (obj_scale (loaded g)) s\<rparr>)"
      by (simp add: Model_effect_def Let_def setFromObject_loaded [OF ne])
    then show ?thesis
      by (simp add: c loaded_def sub_v3_def multiplyScalar_def obj_def)
  qed
  have mono: "s * a1 \<le> s * b1" "s * a2 \<le> s * b2" "s * a3 \<le> s * b3"
    using le s_pos by simp_all
  have box: "setFromObject obj =
      \<lparr>box_min = Vector3 (- ((a1 + b1) * 0.5) + s * a1) (- ((a2 + b2) * 0.5) + s * a2)
                         (- ((a3 + b3) * 0.5) + s * a3),
       box_max = Vector3 (- ((a1 + b1) * 0.5) + s * b1) (- ((a2 + b2) * 0.5) + s * b2)
                         (- ((a3 + b3) * 0.5) + s * b3)\<rparr>"
    using ne mono
    by (simp add: obj_def setFromObject_def localToWorld_def mn mx min_v3_def max_v3_def
        min_absorb1 max_absorb2)
  have nonempty: "\<not> isEmpty (setFromObject obj)"
    using mono by (simp add: box isEmpty_def not_less)
  have "getCenter (setFromObject obj) =
      multiplyScalar (add_v3 (box_min (setFromObject obj)) (box_max (setFromObject obj))) 0.5"
    using nonempty by (simp add: getCenter_def)
  also have "\<dots> = multiplyScalar (getCenter g) (s - 1)"
    by (simp add: box c add_v3_def multiplyScalar_def algebra_simps)
  finally have center: "getCenter (setFromObject obj) = multiplyScalar (getCenter g) (s - 1)" .
  have "getSize (setFromObject obj) = Vector3 (s * (b1 - a1)) (s * (b2 - a2)) (s * (b3 - a3))"
    using nonempty by (simp add: getSize_def) (simp add: box sub_v3_def algebra_simps)
  then have "maxDim (getSize (setFromObject obj)) = s * m"
    using s_pos by (simp add: maxDim_scaled m_def sz)
  also have "\<dots> = 10"
    using m_pos by (simp add: s_def)
  finally show ?thesis
    using center eff by (simp add: s_def m_def)
qed

lemma deliver_click_0:
  "snd (deliver_click GlowingPoint_mesh_onClick_0 s (m # ms)) = [m]"
  by (simp add: GlowingPoint_mesh_onClick_0_def split: prod.splits)

lemma deliver_click_1:
  "snd (deliver_click ClickPoint_mesh_onClick_1 s (m # ms)) = [m]"
  by (simp add: ClickPoint_mesh_onClick_1_def split: prod.splits)

section \<open>Facts about double precision\<close>

lemma round_even_of_int: "round_even (of_int n) = n"
  by (simp add: round_even_def)

lemma round_even_below: "0 \<le> d \<Longrightarrow> d < 1/2 \<Longrightarrow> round_even (of_int n + d) = n"
proof -
  assume d: "0 \<le> d" "d < 1/2"
  then have "\<lfloor>of_int n + d\<rfloor> = n"
    by (simp add: floor_unique)
  with d show ?thesis
    by (simp add: round_even_def Let_def)
qed

lemma round_even_above: "1/2 < d \<Longrightarrow> d < 1 \<Longrightarrow> round_even (of_int n + d) = n + 1"
proof -
  assume d: "1/2 < d" "d < 1"
  then have "\<lfloor>of_int n + d\<rfloor> = n"
    by (simp add: floor_unique)
  with d show ?thesis
    by (simp add: round_even_def Let_def)
qed

lemma round_even_tie: "round_even (of_int n + 1/2) = (if even n then n else n + 1)"
proof -
  have "\<lfloor>of_int n + (1/2 :: real)\<rfloor> = n"
    by (simp add: floor_unique)
  then show ?thesis
    by (simp add: round_even_def Let_def)
qed

lemma double_eval:
  assumes lo: "2 powi e \<le> \<bar>x\<bar>" and hi: "\<bar>x\<bar> < 2 powi (e + 1)"
  shows "double x = of_int (round_even (x * 2 powi (52 - e))) * 2 powi (e - 52)"
proof -
  have pos: "0 < \<bar>x\<bar>"
    using lo zero_less_power_int [of "2::real" e] by linarith
  have "(2::real) powr real_of_int e = 2 powi e" "(2::real) powr (real_of_int e + 1) = 2 powi (e + 1)"
    using powr_real_of_int' [of "2::real" e] powr_real_of_int' [of "2::real" "e + 1"]
    by simp_all
  with lo hi have "\<lfloor>log 2 \<bar>x\<bar>\<rfloor> = e"
    using floor_log_eq_powr_iff [of "\<bar>x\<bar>" 2 e] pos by simp
  with pos show ?thesis
    by (simp add: double_def Let_def)
qed

lemma double_003: "double 0.03 = 1080863910568919 / 2 ^ 55"
proof -
  have "(0.03::real) * 2 powi 58 = of_int 8646911284551352 + 8 / 25"
    by simp
  then have "round_even (0.03 * 2 powi 58) = 8646911284551352"
    using round_even_below [of "8/25" 8646911284551352] by simp
  then show ?thesis
    using double_eval [of "-6" "0.03"] by simp
qed

lemma double_sum_progress:
  "double (36749372959343271 / 2 ^ 55) = 4593671619917909 / 2 ^ 52"
proof -
  have "((36749372959343271 / 2 ^ 55) :: real) * 2 powi 52 = of_int 4593671619917908 + 7 / 8"
    by simp
  then have "round_even ((36749372959343271 / 2 ^ 55) * 2 powi 52) = 4593671619917909"
    using round_even_above [of "7/8" 4593671619917908] by simp
  then show ?thesis
    using double_eval [of 0 "36749372959343271 / 2 ^ 55"] by simp
qed

lemma double_progress_34:
  "min 1 (double (2229281815548397 / 2 ^ 51 + double 0.03)) = 1"
proof -
  have sum: "(2229281815548397 / 2 ^ 51 + 1080863910568919 / 2 ^ 55 :: real) =
      36749372959343271 / 2 ^ 55"
    by simp
  have "double (2229281815548397 / 2 ^ 51 + double 0.03) =
      double (2229281815548397 / 2 ^ 51 + 1080863910568919 / 2 ^ 55)"
    by (simp only: double_003)
  also have "\<dots> = double (36749372959343271 / 2 ^ 55)"
    by (simp only: sum)
  also have "\<dots> = 4593671619917909 / 2 ^ 52"
    by (rule double_sum_progress)
  finally have "double (2229281815548397 / 2 ^ 51 + double 0.03) = 4593671619917909 / 2 ^ 52" .
  moreover have "min 1 (4593671619917909 / 2 ^ 52 :: real) = 1"
    by simp
  ultimately show ?thesis
    by (simp only:)
qed

lemma double_2: "double 2 = 2"
  using double_eval [of 1 2] round_even_of_int [of "2 ^ 52"] by simp

lemma double_1: "double 1 = 1"
  using double_eval [of 0 1] round_even_of_int [of "2 ^ 52"] by simp

lemma eased_at_cos_minus_1: "double (double (1 - (- 1)) / 2) = 1"
proof -
  have "double (1 - (- 1)) = double 2"
    by simp
  then have "double (double (1 - (- 1)) / 2) = double (2 / 2)"
    by (simp only: double_2)
  then show ?thesis
    by (simp add: double_1)
qed

lemma double_diff_x:
  "double (4545594849814417 / 2 ^ 50 - 14) = - 5608501922991160 / 2 ^ 49"
proof -
  have "((4545594849814417 / 2 ^ 50 - 14) :: real) * 2 powi 49 =
      of_int (- 5608501922991160) + 1 / 2"
    by simp
  then have "round_even ((4545594849814417 / 2 ^ 50 - 14) * 2 powi 49) = - 5608501922991160"
    using round_even_tie [of "- 5608501922991160"] by simp
  then show ?thesis
    using double_eval [of 3 "4545594849814417 / 2 ^ 50 - 14"] by simp
qed

lemma double_diff_x_again:
  "double (- 5608501922991160 / 2 ^ 49) = - 5608501922991160 / 2 ^ 49"
proof -
  have "((- 5608501922991160 / 2 ^ 49) :: real) * 2 powi 49 = of_int (- 5608501922991160)"
    by simp
  then have "round_even ((- 5608501922991160 / 2 ^ 49) * 2 powi 49) = - 5608501922991160"
    using round_even_of_int [of "- 5608501922991160"] by simp
  then show ?thesis
    using double_eval [of 3 "- 5608501922991160 / 2 ^ 49"] by simp
qed

lemma double_sum_x:
  "double (14 + - 5608501922991160 / 2 ^ 49) = 4545594849814416 / 2 ^ 50"
proof -
  have "((14 + - 5608501922991160 / 2 ^ 49) :: real) * 2 powi 50 = of_int 4545594849814416"
    by simp
  then have "round_even ((14 + - 5608501922991160 / 2 ^ 49) * 2 powi 50) = 4545594849814416"
    using round_even_of_int [of 4545594849814416] by simp
  then show ?thesis
    using double_eval [of 2 "14 + - 5608501922991160 / 2 ^ 49"] by simp
qed

lemma lerp_x:
  "vx (lerpVectors_double (Vector3 14 10 14) pointA_target_0 1) = 4545594849814416 / 2 ^ 50"
proof -
  have "vx (lerpVectors_double (Vector3 14 10 14) pointA_target_0 1) =
      double (14 + double (double (4545594849814417 / 2 ^ 50 - 14) * 1))"
    by (simp only: lerpVectors_double_def pointA_target_0_def vec3.sel)
  also have "\<dots> = double (14 + double (- 5608501922991160 / 2 ^ 49))"
    by (simp only: double_diff_x mult_1_right)
  also have "\<dots> = 4545594849814416 / 2 ^ 50"
    by (simp only: double_diff_x_again double_sum_x)
  finally show ?thesis .
qed

lemma frame_0_double_last:
  assumes "progress_0 r < 1"
    and "min 1 (double (progress_0 r + double 0.03)) = 1"
    and "double (double (1 - c) / 2) = 1"
  shows "CameraController_frame_0_double c (Some tpos) (Some tlook) (cam, r) =
    (\<lparr>camera_position = lerpVectors_double (fromPos r) tpos 1,
      camera_lookAt = lerpVectors_double (fromLookAt r) tlook 1\<rparr>,
     r\<lparr>progress_0 := 1\<rparr>)"
  using assms by (simp add: CameraController_frame_0_double_def Let_def)

lemma frame_0_double_idle:
  "1 \<le> progress_0 r \<Longrightarrow> CameraController_frame_0_double c tpo tlo (cam, r) = (cam, r)"
  by (simp add: CameraController_frame_0_double_def split: option.splits)

lemma last_frame:
  "CameraController_frame_0_double (- 1) (Some pointA_target_0) (Some (Vector3 2 3 (- 2)))
     (camera_default_0, ref_after_33_frames) =
   (\<lparr>camera_position = lerpVectors_double (Vector3 14 10 14) pointA_target_0 1,
     camera_lookAt = lerpVectors_double (Vector3 0 0 0) (Vector3 2 3 (- 2)) 1\<rparr>,
    \<lparr>progress_0 = 1, fromPos = Vector3 14 10 14, fromLookAt = Vector3 0 0 0\<rparr>)"
proof -
  have lt: "progress_0 ref_after_33_frames < 1"
    by (simp add: ref_after_33_frames_def)
  have one: "min 1 (double (progress_0 ref_after_33_frames + double 0.03)) = 1"
    using double_progress_34 by (simp only: ref_after_33_frames_def ref_0.simps)
  have "CameraController_frame_0_double (- 1) (Some pointA_target_0) (Some (Vector3 2 3 (- 2)))
     (camera_default_0, ref_after_33_frames) =
    (\<lparr>camera_position = lerpVectors_double (fromPos ref_after_33_frames) pointA_target_0 1,
      camera_lookAt = lerpVectors_double (fromLookAt ref_after_33_frames) (Vector3 2 3 (- 2)) 1\<rparr>,
     ref_after_33_frames\<lparr>progress_0 := 1\<rparr>)"
    by (rule frame_0_double_last [OF lt one eased_at_cos_minus_1])
  also have "fromPos ref_after_33_frames = Vector3 14 10 14"
    by (simp add: ref_after_33_frames_def)
  also have "fromLookAt ref_after_33_frames = Vector3 0 0 0"
    by (simp add: ref_after_33_frames_def)
  also have "ref_after_33_frames\<lparr>progress_0 := 1\<rparr> =
      \<lparr>progress_0 = 1, fromPos = Vector3 14 10 14, fromLookAt = Vector3 0 0 0\<rparr>"
    by (simp add: ref_after_33_frames_def)
  finally show ?thesis .
qed

section \<open>The claims about the scene root\<close>

text \<open>
  C1. On a click on a marker the scene root sets the selection to the clicked marker,
  the camera look-at target to the marker's own position, and the camera position target
  to the marker position offset along its normalized direction from the origin, by 5
  units in \<^verbatim>\<open>App.jsx\<close> and by 4.2 units in \<^verbatim>\<open>part_000\<close>. For a marker that is not at the
  origin the camera position target lies at exactly that distance from the marker.
\<close>

theorem marker_click_sets_selection_and_camera_targets:
  "selectedPoint (GlowingPoint_onClick s pt) =
     Some \<lparr>sel_position = position pt, sel_label = label pt, sel_point = pt\<rparr>
   \<and> cameraLookAt (GlowingPoint_onClick s pt) = Some (vec3_of (position pt))
   \<and> cameraTarget (GlowingPoint_onClick s pt) =
       Some (offsetAlongDirection (vec3_of (position pt)) 5)
   \<and> selectedPoint (GlowingPoint_onClick_0 s0 pt i) = Some i
   \<and> cameraLookAt (GlowingPoint_onClick_0 s0 pt i) = Some (vec3_of (position pt))
   \<and> cameraTarget (GlowingPoint_onClick_0 s0 pt i) =
       Some (offsetAlongDirection (vec3_of (position pt)) 4.2)
   \<and> (vec3_of (position pt) \<noteq> Vector3 0 0 0 \<longrightarrow>
        length_v3 (sub_v3 (offsetAlongDirection (vec3_of (position pt)) 5)
                          (vec3_of (position pt))) = 5
      \<and> length_v3 (sub_v3 (offsetAlongDirection (vec3_of (position pt)) 4.2)
                          (vec3_of (position pt))) = 4.2)"
proof -
  obtain p0 p1 p2 where pos: "position pt = (p0, p1, p2)"
    by (cases "position pt") auto
  have app: "GlowingPoint_onClick s pt =
      s\<lparr>selectedPoint := Some \<lparr>sel_position = position pt, sel_label = label pt, sel_point = pt\<rparr>,
        cameraTarget := Some (offsetAlongDirection (vec3_of (position pt)) 5),
        cameraLookAt := Some (vec3_of (position pt))\<rparr>"
    by (simp add: GlowingPoint_onClick_def handlePointClick_def pos vec3_of_def
        offsetAlongDirection_def Let_def mult.commute)
  have p0: "GlowingPoint_onClick_0 s0 pt i =
      s0\<lparr>selectedPoint := Some i,
         cameraTarget := Some (offsetAlongDirection (vec3_of (position pt)) 4.2),
         cameraLookAt := Some (vec3_of (position pt))\<rparr>"
    by (simp add: GlowingPoint_onClick_0_def handlePointClick_0_def pos vec3_of_def
        offsetAlongDirection_def Let_def mult.commute)
  show ?thesis
    by (simp add: app p0 length_v3_offset)
qed

theorem marker_click_sets_selection_and_camera_targets_witness:
  "vec3_of (position pointA) \<noteq> Vector3 0 0 0
   \<and> selectedPoint (GlowingPoint_onClick initial_app_state pointA) =
       Some \<lparr>sel_position = (2, 3, -2), sel_label = ''Point A'', sel_point = pointA\<rparr>
   \<and> cameraLookAt (GlowingPoint_onClick initial_app_state pointA) = Some (Vector3 2 3 (-2))
   \<and> selectedPoint (GlowingPoint_onClick_0 initial_app_state pointA 0) = Some 0
   \<and> length_v3 (sub_v3 (offsetAlongDirection (Vector3 2 3 (-2)) 5) (Vector3 2 3 (-2))) = 5
   \<and> length_v3 (sub_v3 (offsetAlongDirection (Vector3 2 3 (-2)) 4.2) (Vector3 2 3 (-2))) = 4.2"
proof -
  have nz: "vec3_of (position pointA) \<noteq> Vector3 0 0 0"
    by (simp add: vec3_of_def pointA_def)
  have fields: "position pointA = (2, 3, -2)" "label pointA = ''Point A''"
    by (simp_all add: pointA_def)
  show ?thesis
    using nz marker_click_sets_selection_and_camera_targets
      [of initial_app_state pointA initial_app_state 0]
    by (simp add: fields vec3_of_def)
qed

text \<open>
  C5. From any prior state, the camera reset clears the selection and sets the camera
  position target to the canonical default, (15, 12, 15) in \<^verbatim>\<open>App.jsx\<close> and (14, 10, 14) in
  \<^verbatim>\<open>part_000\<close>, with the look-at target at the origin.
\<close>

theorem reset_clears_selection_and_restores_default:
  "handleResetCamera s =
     \<lparr>cameraTarget = Some (Vector3 15 12 15), cameraLookAt = Some (Vector3 0 0 0),
      selectedPoint = None\<rparr>
   \<and> resetCamera_0 s0 =
     \<lparr>cameraTarget = Some (Vector3 14 10 14), cameraLookAt = Some (Vector3 0 0 0),
      selectedPoint = None\<rparr>"
  by (simp add: handleResetCamera_def resetCamera_0_def)

text \<open>
  C8. The selection is a single nullable reference: after any sequence of clicks, resets
  and panel closes at most one marker is selected, and a click on marker B while marker A
  is selected leaves exactly B selected.
\<close>

theorem at_most_one_marker_selected:
  "card (set_option (selectedPoint (foldl app_step s es))) \<le> 1
   \<and> card (set_option (selectedPoint (foldl app_step_0 s0 es0))) \<le> 1
   \<and> set_option (selectedPoint (GlowingPoint_onClick (GlowingPoint_onClick s a) b)) =
       {\<lparr>sel_position = position b, sel_label = label b, sel_point = b\<rparr>}
   \<and> set_option (selectedPoint (GlowingPoint_onClick_0 (GlowingPoint_onClick_0 s0 a i) b j)) =
       {j}"
proof -
  have one: "card (set_option x) \<le> 1" for x :: "'a option"
    by (cases x) simp_all
  have "selectedPoint (app_step (app_step s (Click a)) (Click b)) =
      Some \<lparr>sel_position = position b, sel_label = label b, sel_point = b\<rparr>"
    by (simp only: selectedPoint_app_step ui_event.case)
  moreover have "selectedPoint (app_step_0 (app_step_0 s0 (Click_0 a i)) (Click_0 b j)) = Some j"
    by (simp only: selectedPoint_app_step_0 ui_event_0.case)
  ultimately show ?thesis
    using one [of "selectedPoint (foldl app_step s es)"]
      one [of "selectedPoint (foldl app_step_0 s0 es0)"]
    by simp
qed

text \<open>
  C10. The click handler is total also for a marker at the origin: the divisor used by
  the normalization is never zero, it is 1 for the zero vector, the zero vector
  normalizes to itself, and the camera position target of a marker at (0, 0, 0) is the
  marker position itself.
\<close>

theorem marker_click_at_origin:
  "normalize_divisor v \<noteq> 0
   \<and> normalize_divisor (Vector3 0 0 0) = 1
   \<and> normalize_v3 (Vector3 0 0 0) = Vector3 0 0 0
   \<and> cameraTarget (handlePointClick s (0, 0, 0) lbl pt) = Some (Vector3 0 0 0)
   \<and> cameraTarget (handlePointClick_0 s0 (0, 0, 0) i) = Some (Vector3 0 0 0)"
proof -
  have "normalize_divisor v \<noteq> 0"
    using normalize_divisor_pos [of v] by simp
  moreover have "normalize_divisor (Vector3 0 0 0) = 1"
    by (simp add: normalize_divisor_def length_v3_def)
  ultimately show ?thesis
    by (simp add: handlePointClick_def handlePointClick_0_def normalize_v3_zero Let_def)
qed

section \<open>The claims about the camera tween controller\<close>

text \<open>
  C2. In the frame in which progress reaches 1 the camera position and orientation are to
  equal the target exactly, and later frames are to change nothing. \<^verbatim>\<open>App.jsx\<close> copies
  the target into the camera and clears the flag (\<open>App_frame_reaching_1_snaps\<close>,
  \<open>episode_after\<close>). \<^verbatim>\<open>part_000\<close> has no such copy: its last frame interpolates with the
  factor 1, and in doubles \<open>from + (target - from) * 1\<close> is not the target. In the episode
  that a click on Point A starts with the camera at (14, 10, 14), the last frame sets
  progress to 1 and leaves the x coordinate of the camera one unit in the last place
  below the target, and the next frame changes nothing any more.
\<close>

theorem part_000_last_frame_misses_target:
  "progress_0 (snd (CameraController_frame_0_double (- 1) (Some pointA_target_0)
      (Some (Vector3 2 3 (- 2))) (camera_default_0, ref_after_33_frames))) = 1
   \<and> vx (camera_position (fst (CameraController_frame_0_double (- 1) (Some pointA_target_0)
      (Some (Vector3 2 3 (- 2))) (camera_default_0, ref_after_33_frames)))) =
       4545594849814416 / 2 ^ 50
   \<and> vx pointA_target_0 = 4545594849814417 / 2 ^ 50
   \<and> camera_position (fst (CameraController_frame_0_double (- 1) (Some pointA_target_0)
      (Some (Vector3 2 3 (- 2))) (camera_default_0, ref_after_33_frames))) \<noteq> pointA_target_0
   \<and> CameraController_frame_0_double (- 1) (Some pointA_target_0) (Some (Vector3 2 3 (- 2)))
       (CameraController_frame_0_double (- 1) (Some pointA_target_0) (Some (Vector3 2 3 (- 2)))
          (camera_default_0, ref_after_33_frames)) =
      CameraController_frame_0_double (- 1) (Some pointA_target_0) (Some (Vector3 2 3 (- 2)))
        (camera_default_0, ref_after_33_frames)"
proof -
  have tx: "vx pointA_target_0 = 4545594849814417 / 2 ^ 50"
    by (simp add: pointA_target_0_def)
  have "vx (lerpVectors_double (Vector3 14 10 14) pointA_target_0 1) \<noteq> vx pointA_target_0"
    unfolding lerp_x tx by simp
  then have ne: "lerpVectors_double (Vector3 14 10 14) pointA_target_0 1 \<noteq> pointA_target_0"
    by auto
  show ?thesis
    using ne tx lerp_x
    by (simp only: last_frame fst_conv snd_conv camera.simps ref_0.simps frame_0_double_idle
        order_refl simp_thms)
qed

text \<open>
  C3. When a new camera target is assigned (by a marker click or by the reset), progress
  is reset to 0 and the interpolation starts from the camera's position at that moment,
  whatever the previous animation state was; and from one frame of an episode to the
  next, progress does not decrease.
\<close>

theorem new_target_restarts_from_live_position:
  "progress (App_retarget cam a (GlowingPoint_onClick s pt)) = 0
   \<and> startPosition (App_retarget cam a (GlowingPoint_onClick s pt)) = Some (camera_position cam)
   \<and> isAnimating (App_retarget cam a (GlowingPoint_onClick s pt))
   \<and> progress (App_retarget cam a (handleResetCamera s)) = 0
   \<and> startPosition (App_retarget cam a (handleResetCamera s)) = Some (camera_position cam)
   \<and> isAnimating (App_retarget cam a (handleResetCamera s))
   \<and> progress_0 (App_retarget_0 cam r (GlowingPoint_onClick_0 s0 pt i)) = 0
   \<and> fromPos (App_retarget_0 cam r (GlowingPoint_onClick_0 s0 pt i)) = camera_position cam
   \<and> progress_0 (App_retarget_0 cam r (resetCamera_0 s0)) = 0
   \<and> fromPos (App_retarget_0 cam r (resetCamera_0 s0)) = camera_position cam
   \<and> progress (CameraController_effect cam a (Some tpos) (Some tlook)) = 0
   \<and> startPosition (CameraController_effect cam a (Some tpos) (Some tlook)) =
       Some (camera_position cam)
   \<and> progress_0 (CameraController_effect_0 cam r (Some tpos) (Some tlook)) = 0
   \<and> fromPos (CameraController_effect_0 cam r (Some tpos) (Some tlook)) = camera_position cam
   \<and> (\<exists>cam1 a1 cam2 a2.
        CameraController_frames n (Some tpos) (Some tlook)
          (cam, CameraController_effect cam a (Some tpos) (Some tlook)) = Inr (cam1, a1)
      \<and> CameraController_frames (Suc n) (Some tpos) (Some tlook)
          (cam, CameraController_effect cam a (Some tpos) (Some tlook)) = Inr (cam2, a2)
      \<and> progress a1 \<le> progress a2)
   \<and> (\<exists>cam1 r1 cam2 r2.
        CameraController_frames_0 n (Some tpos) (Some tlook)
          (cam, CameraController_effect_0 cam r (Some tpos) (Some tlook)) = (cam1, r1)
      \<and> CameraController_frames_0 (Suc n) (Some tpos) (Some tlook)
          (cam, CameraController_effect_0 cam r (Some tpos) (Some tlook)) = (cam2, r2)
      \<and> progress_0 r1 \<le> progress_0 r2)"
proof -
  obtain p0 p1 p2 where pos: "position pt = (p0, p1, p2)"
    by (cases "position pt") auto
  have click: "\<exists>t l. cameraTarget (GlowingPoint_onClick s pt) = Some t
      \<and> cameraLookAt (GlowingPoint_onClick s pt) = Some l"
    by (simp add: GlowingPoint_onClick_def handlePointClick_def pos Let_def)
  have click_0: "\<exists>t l. cameraTarget (GlowingPoint_onClick_0 s0 pt i) = Some t
      \<and> cameraLookAt (GlowingPoint_onClick_0 s0 pt i) = Some l"
    by (simp add: GlowingPoint_onClick_0_def handlePointClick_0_def pos Let_def)
  have retarget: "App_retarget cam a (GlowingPoint_onClick s pt) =
      \<lparr>startPosition = Some (camera_position cam), startLookAt = Some (Vector3 0 0 0),
       progress = 0, isAnimating = True\<rparr>"
    using click by (auto simp: App_retarget_def effect_Some)
  have retarget_0: "App_retarget_0 cam r (GlowingPoint_onClick_0 s0 pt i) =
      \<lparr>progress_0 = 0, fromPos = camera_position cam, fromLookAt = Vector3 0 0 0\<rparr>"
    using click_0 by (auto simp: App_retarget_0_def effect_0_Some)
  have reset: "App_retarget cam a (handleResetCamera s) =
      \<lparr>startPosition = Some (camera_position cam), startLookAt = Some (Vector3 0 0 0),
       progress = 0, isAnimating = True\<rparr>"
    by (simp add: App_retarget_def handleResetCamera_def effect_Some)
  have reset_0: "App_retarget_0 cam r (resetCamera_0 s0) =
      \<lparr>progress_0 = 0, fromPos = camera_position cam, fromLookAt = Vector3 0 0 0\<rparr>"
    by (simp add: App_retarget_0_def resetCamera_0_def effect_0_Some)
  have mono: "min 1 (real n * c) \<le> min 1 (real (Suc n) * c)" if "0 \<le> c" for c :: real
    using that by (simp add: min_def distrib_right) 
  have app: "\<exists>cam1 a1 cam2 a2.
        CameraController_frames n (Some tpos) (Some tlook)
          (cam, CameraController_effect cam a (Some tpos) (Some tlook)) = Inr (cam1, a1)
      \<and> CameraController_frames (Suc n) (Some tpos) (Some tlook)
          (cam, CameraController_effect cam a (Some tpos) (Some tlook)) = Inr (cam2, a2)
      \<and> progress a1 \<le> progress a2"
  proof -
    obtain cam1 a1 where one: "CameraController_frames n (Some tpos) (Some tlook)
          (cam, CameraController_effect cam a (Some tpos) (Some tlook)) = Inr (cam1, a1)"
        "progress a1 = min 1 (real n * 0.004)"
      using episode_progress [of n tpos tlook cam a] by blast
    obtain cam2 a2 where two: "CameraController_frames (Suc n) (Some tpos) (Some tlook)
          (cam, CameraController_effect cam a (Some tpos) (Some tlook)) = Inr (cam2, a2)"
        "progress a2 = min 1 (real (Suc n) * 0.004)"
      using episode_progress [of "Suc n" tpos tlook cam a] by blast
    have "progress a1 \<le> progress a2"
      using mono [of "0.004"] by (simp only: one two) simp
    with one two show ?thesis
      by blast
  qed
  have part0: "\<exists>cam1 r1 cam2 r2.
        CameraController_frames_0 n (Some tpos) (Some tlook)
          (cam, CameraController_effect_0 cam r (Some tpos) (Some tlook)) = (cam1, r1)
      \<and> CameraController_frames_0 (Suc n) (Some tpos) (Some tlook)
          (cam, CameraController_effect_0 cam r (Some tpos) (Some tlook)) = (cam2, r2)
      \<and> progress_0 r1 \<le> progress_0 r2"
  proof -
    obtain cam1 r1 where one: "CameraController_frames_0 n (Some tpos) (Some tlook)
          (cam, CameraController_effect_0 cam r (Some tpos) (Some tlook)) = (cam1, r1)"
        "progress_0 r1 = min 1 (real n * 0.03)"
      using episode_0_progress [of n tpos tlook cam r] by blast
    obtain cam2 r2 where two: "CameraController_frames_0 (Suc n) (Some tpos) (Some tlook)
          (cam, CameraController_effect_0 cam r (Some tpos) (Some tlook)) = (cam2, r2)"
        "progress_0 r2 = min 1 (real (Suc n) * 0.03)"
      using episode_0_progress [of "Suc n" tpos tlook cam r] by blast
    have "progress_0 r1 \<le> progress_0 r2"
      using mono [of "0.03"] by (simp only: one two) simp
    with one two show ?thesis
      by blast
  qed
  show ?thesis
    using app part0
    by (simp only: retarget retarget_0 reset reset_0 effect_Some effect_0_Some) simp
qed

section \<open>The claims about the asset loader\<close>

text \<open>
  C4. The loader is to scale a loaded asset uniformly so that the largest dimension of
  its bounding box is the target size, and to leave the centre of the bounding box at the
  origin. \<^verbatim>\<open>part_000\<close> does both (\<open>Model_effect_0_centers_and_scales\<close>). \<^verbatim>\<open>App.jsx\<close> reaches
  the size but subtracts the centre of the unscaled box: the cube with corners (0, 0, 0)
  and (20, 20, 20) is scaled by 1/2 to the largest dimension 10, and the centre of its
  bounding box ends at (-5, -5, -5).
\<close>

theorem Model_effect_leaves_center_off_origin:
  "Model_effect (loaded cube20) =
     Finite \<lparr>obj_position = Vector3 (-10) (-10) (-10), obj_scale = Vector3 (1/2) (1/2) (1/2),
             geometry = cube20\<rparr>
   \<and> maxDim (getSize (setFromObject \<lparr>obj_position = Vector3 (-10) (-10) (-10),
        obj_scale = Vector3 (1/2) (1/2) (1/2), geometry = cube20\<rparr>)) = 10
   \<and> getCenter (setFromObject \<lparr>obj_position = Vector3 (-10) (-10) (-10),
        obj_scale = Vector3 (1/2) (1/2) (1/2), geometry = cube20\<rparr>) = Vector3 (-5) (-5) (-5)
   \<and> getCenter (setFromObject (Model_effect_0 (loaded cube20))) = Vector3 0 0 0"
proof -
  have "\<not> isEmpty cube20" and "0 < maxDim (getSize cube20)"
    by (simp_all add: cube20_def isEmpty_def getSize_def maxDim_def sub_v3_def)
  then have "getCenter (setFromObject (Model_effect_0 (loaded cube20))) = Vector3 0 0 0"
    by (simp add: Model_effect_0_centers_and_scales)
  then show ?thesis
    by (simp add: Model_effect_def Model_scale_def js_div_def maxDim_def getSize_def
        getCenter_def setFromObject_def loaded_def cube20_def isEmpty_def localToWorld_def
        min_v3_def max_v3_def add_v3_def sub_v3_def multiplyScalar_def Let_def)
qed

text \<open>
  C9. The scale factor is to be finite for every bounding box, and 1 when the largest
  dimension is 0. \<^verbatim>\<open>part_000\<close> guards the division and yields 1. \<^verbatim>\<open>App.jsx\<close> divides 10
  by the largest dimension without a guard: for an asset whose geometry is a single
  vertex the largest dimension is 0 and the scale factor is not finite.
\<close>

theorem Model_scale_not_finite_for_degenerate_box:
  "maxDim (getSize (setFromObject (loaded single_vertex))) = 0
   \<and> Model_scale (getSize (setFromObject (loaded single_vertex))) = NonFinite
   \<and> Model_effect (loaded single_vertex) = NonFinite
   \<and> Model_scale_0 (getSize (setFromObject (loaded single_vertex))) = 1"
proof -
  have ne: "\<not> isEmpty single_vertex"
    by (simp add: single_vertex_def isEmpty_def)
  have "getSize single_vertex = Vector3 0 0 0"
    using ne by (simp add: getSize_def) (simp add: single_vertex_def sub_v3_def)
  then show ?thesis
    by (simp add: Model_effect_def Let_def setFromObject_loaded [OF ne] Model_scale_def
        Model_scale_0_def js_div_def maxDim_def)
qed

section \<open>The claim about the delivery of clicks\<close>

text \<open>
  C6. A click on a marker is to run the click callback of that marker only. \<^verbatim>\<open>part_000\<close>
  and \<^verbatim>\<open>part_001\<close> stop the propagation of the event (\<open>deliver_click_0\<close>,
  \<open>deliver_click_1\<close>). The handler of \<^verbatim>\<open>App.jsx\<close> does not: when the pointer ray hits
  Point A and, behind it, Point B, both callbacks run, and Point B ends up selected.
\<close>

theorem click_reaches_marker_behind:
  "deliver_click GlowingPoint_mesh_onClick initial_app_state [pointA, pointB] =
     (\<lparr>cameraTarget = Some (offsetAlongDirection (Vector3 (-3) 2 1) 5),
       cameraLookAt = Some (Vector3 (-3) 2 1),
       selectedPoint = Some \<lparr>sel_position = (-3, 2, 1), sel_label = ''Point B'',
                              sel_point = pointB\<rparr>\<rparr>,
      [pointA, pointB])"
  by (simp add: GlowingPoint_mesh_onClick_def GlowingPoint_onClick_def handlePointClick_def
      initial_app_state_def Let_def offsetAlongDirection_def pointA_def pointB_def mult.commute)

section \<open>The claim about the device-capability probe\<close>

text \<open>
  C7, as stated, fails: a resize recomputes \<open>isMobile\<close> only. After the page has been
  zoomed to a pixel ratio of 3 and the resize event has been handled, \<open>lowPower\<close> is
  still false, although the pixel ratio is at least 2.5.
\<close>

theorem lowPower_stale_after_resize:
  "\<not> (lowPower (onResize zoomed_window
          (useDevicePerformance_effect desktop_window
             (useDevicePerformance_initial (Some desktop_window))))
       \<longleftrightarrow> ((3::real) < 1 \<or> (3::real) \<ge> 2.5 \<or> (8::nat) \<le> 2))"
  by (simp add: onResize_def useDevicePerformance_effect_def useDevicePerformance_initial_def
      desktop_window_def)

text \<open>
  C7, amended. \<open>isMobile\<close> holds exactly when the viewport width is at most 768; it is
  evaluated initially and recomputed on every resize event, in \<^verbatim>\<open>part_000\<close> and in
  \<^verbatim>\<open>App.jsx\<close>. \<open>lowPower\<close> is false initially; the mount effect sets it, for a defined
  nonzero pixel ratio and a defined core count, to "pixel ratio below 1 or at least 2.5,
  or core count at most 2", and leaves \<open>isMobile\<close> as it is; a resize event leaves
  \<open>lowPower\<close> as it is.
\<close>

theorem device_profile:
  "isMobile (useDevicePerformance_initial (Some w)) = (innerWidth w \<le> 768)
   \<and> isMobile (onResize w d) = (innerWidth w \<le> 768)
   \<and> App_isMobile_initial w = (innerWidth w \<le> 768)
   \<and> handleResize w b = (innerWidth w \<le> 768)
   \<and> lowPower (useDevicePerformance_initial wo) = False
   \<and> lowPower (onResize w d) = lowPower d
   \<and> isMobile (useDevicePerformance_effect w d) = isMobile d
   \<and> (devicePixelRatio w = Some x \<and> x \<noteq> 0 \<and> hardwareConcurrency w = Some c \<longrightarrow>
        lowPower (useDevicePerformance_effect w d) = (x < 1 \<or> x \<ge> 2.5 \<or> c \<le> 2))"
  by (simp add: useDevicePerformance_initial_def onResize_def App_isMobile_initial_def
      handleResize_def useDevicePerformance_effect_def Let_def)

theorem device_profile_witness:
  "devicePixelRatio zoomed_window = Some 3 \<and> (3::real) \<noteq> 0
   \<and> hardwareConcurrency zoomed_window = Some 8
   \<and> lowPower (useDevicePerformance_effect zoomed_window
        (useDevicePerformance_initial (Some zoomed_window)))
   \<and> isMobile (useDevicePerformance_initial (Some zoomed_window))
   \<and> \<not> isMobile (onResize desktop_window (useDevicePerformance_initial (Some zoomed_window)))"
  using device_profile [of zoomed_window "useDevicePerformance_initial (Some zoomed_window)"
      False None 3 8]
    device_profile [of desktop_window "useDevicePerformance_initial (Some zoomed_window)"
      False None 1 8]
  by (simp add: zoomed_window_def desktop_window_def)

end
